theory Spec2Isabelle
  imports Complex_Main
begin

section \<open>The game client of \<^verbatim>\<open>game.js\<close>\<close>

text \<open>
  The embedding follows the class \<^verbatim>\<open>GameClient\<close>. JavaScript numbers that hold
  coordinates are reals (no NaN, no infinities). The two coordinate transforms round
  their results to the nearest IEEE double, as the code's subtraction and addition do;
  the camera arithmetic, whose bounds do not depend on rounding, is exact. Timestamps
  (\<^verbatim>\<open>Date.now()\<close>) are natural numbers of milliseconds. A JavaScript \<^verbatim>\<open>Map\<close> is an
  association list in insertion order with one entry per key.
\<close>

subsection \<open>JavaScript maps\<close>

type_synonym ('k, 'v) jsmap = "('k \<times> 'v) list"

text \<open>\<^verbatim>\<open>Map.prototype.get\<close>; \<open>None\<close> is \<^verbatim>\<open>undefined\<close>.\<close>

definition jm_get :: "('k, 'v) jsmap \<Rightarrow> 'k \<Rightarrow> 'v option" where
  "jm_get m k = map_of m k"

text \<open>\<^verbatim>\<open>Map.prototype.set\<close>: an existing key keeps its place, a new key goes last.\<close>

fun jm_set :: "'k \<Rightarrow> 'v \<Rightarrow> ('k, 'v) jsmap \<Rightarrow> ('k, 'v) jsmap" where
  "jm_set k v [] = [(k, v)]"
| "jm_set k v ((k', v') # m) = (if k = k' then (k, v) # m else (k', v') # jm_set k v m)"

text \<open>\<^verbatim>\<open>Map.prototype.delete\<close>.\<close>

definition jm_delete :: "'k \<Rightarrow> ('k, 'v) jsmap \<Rightarrow> ('k, 'v) jsmap" where
  "jm_delete k m = filter (\<lambda>e. fst e \<noteq> k) m"

subsection \<open>Data\<close>

text \<open>A player object as the server sends it.\<close>

record player =
  p_id :: string
  p_username :: string
  p_x :: real
  p_y :: real
  p_facing :: string
  p_avatar :: string
  p_animationFrame :: int

text \<open>The three stored directions of an avatar (\<^verbatim>\<open>north\<close>, \<^verbatim>\<open>south\<close>, \<^verbatim>\<open>east\<close>).\<close>

record 'a directions =
  north :: "'a list"
  south :: "'a list"
  east :: "'a list"

text \<open>
  An \<^verbatim>\<open>Image\<close> element: its source, whether it has finished loading, and its size.
\<close>

record image =
  img_src :: string
  img_complete :: bool
  img_width :: real
  img_height :: real

text \<open>
  The avatar map holds two shapes of object: the data of the server
  (\<^verbatim>\<open>{name, frames}\<close>, base64 strings) and, once \<^verbatim>\<open>loadAvatarImage\<close> has run,
  the loaded avatar (\<^verbatim>\<open>{name, images}\<close>).
\<close>

record avatar_data =
  ad_name :: string
  ad_frames :: "string directions"

record avatar =
  av_name :: string
  av_images :: "image directions"

datatype avatar_entry = Raw avatar_data | Loaded avatar

record emote =
  e_type :: string
  startTime :: nat
  duration :: nat
  bounces :: nat

datatype ready_state = CONNECTING | OPEN | CLOSING | CLOSED

text \<open>The join and move messages that \<^verbatim>\<open>ws.send\<close> is given.\<close>

datatype out_msg =
    JoinGameMsg string
  | MoveDirection string
  | MoveTo int int

text \<open>
  The fields of \<^verbatim>\<open>this\<close>. \<open>timers\<close> holds the pending \<^verbatim>\<open>setTimeout\<close> callbacks of
  \<^verbatim>\<open>startEmoteAnimation\<close> (due time and the captured \<^verbatim>\<open>playerId\<close>) in the order
  they were scheduled; \<open>outbox\<close> is what has been handed to \<^verbatim>\<open>ws.send\<close>, oldest first.
  \<open>ws = None\<close> is \<^verbatim>\<open>this.ws === null\<close>.
\<close>

record client =
  worldWidth :: real
  worldHeight :: real
  players :: "(string, player) jsmap"
  avatars :: "(string, avatar_entry) jsmap"
  myPlayerId :: "string option"
  myPlayer :: "player option"
  playerEmotes :: "(string, emote) jsmap"
  cameraX :: real
  cameraY :: real
  viewportWidth :: real
  viewportHeight :: real
  ws :: "ready_state option"
  timers :: "(nat \<times> string) list"
  outbox :: "out_msg list"

text \<open>The constructor, before \<^verbatim>\<open>init()\<close>.\<close>

definition constructed :: client where
  "constructed =
     \<lparr>worldWidth = 2048, worldHeight = 2048, players = [], avatars = [],
      myPlayerId = None, myPlayer = None, playerEmotes = [],
      cameraX = 0, cameraY = 0, viewportWidth = 0, viewportHeight = 0,
      ws = None, timers = [], outbox = []\<rparr>"

text \<open>
  \<^verbatim>\<open>init()\<close> in a window of inner size \<open>w\<close> by \<open>h\<close>: \<^verbatim>\<open>setupCanvas\<close> sets the
  viewport and \<^verbatim>\<open>connectToServer\<close> creates the socket, which is connecting.
\<close>

definition init :: "real \<Rightarrow> real \<Rightarrow> client" where
  "init w h = constructed\<lparr>viewportWidth := w, viewportHeight := h, ws := Some CONNECTING\<rparr>"

text \<open>
  The socket opens and \<^verbatim>\<open>ws.onopen\<close> runs \<^verbatim>\<open>joinGame\<close>, which sends the join message.
\<close>

definition joinGame :: "client \<Rightarrow> client" where
  "joinGame s = s\<lparr>outbox := outbox s @ [JoinGameMsg ''Praise'']\<rparr>"

definition onopen :: "client \<Rightarrow> client" where
  "onopen s = joinGame (s\<lparr>ws := Some OPEN\<rparr>)"

text \<open>A statement either completes or throws; a throw leaves the state as mutated so far.\<close>

datatype js_error = TypeError

datatype completion = Normal | Throw js_error

subsection \<open>Viewport and coordinate transformation\<close>

definition updateViewport :: "client \<Rightarrow> client" where
  "updateViewport s =
     (let s1 = s\<lparr>cameraX := max 0 (min (cameraX s) (worldWidth s - viewportWidth s))\<rparr>
      in s1\<lparr>cameraY := max 0 (min (cameraY s1) (worldHeight s1 - viewportHeight s1))\<rparr>)"

definition centerViewportOnPlayer :: "client \<Rightarrow> client" where
  "centerViewportOnPlayer s =
     (case myPlayer s of
        None \<Rightarrow> s
      | Some p \<Rightarrow>
          updateViewport
            (s\<lparr>cameraX := p_x p - viewportWidth s / 2,
               cameraY := p_y p - viewportHeight s / 2\<rparr>))"

text \<open>
  The resize listener of \<^verbatim>\<open>setupCanvas\<close>; \<open>w\<close> and \<open>h\<close> are
  \<^verbatim>\<open>window.innerWidth\<close> and \<^verbatim>\<open>window.innerHeight\<close>.
\<close>

definition onResize :: "real \<Rightarrow> real \<Rightarrow> client \<Rightarrow> client" where
  "onResize w h s = updateViewport (s\<lparr>viewportWidth := w, viewportHeight := h\<rparr>)"

text \<open>
  A JavaScript number is an IEEE 754 double: zero, or \<open>m * 2 ^ e\<close> with an integer \<open>m\<close>
  of magnitude below \<open>2 ^ 53\<close> and \<open>e\<close> at least \<open>- 1074\<close>. The doubles around \<open>v\<close> are
  \<open>double_ulp v\<close> apart. The result of \<^verbatim>\<open>-\<close> and \<^verbatim>\<open>+\<close> is the exact result rounded to
  the nearest double, a tie going to the even one. Results of magnitude \<open>2 ^ 1024\<close> and
  more, which JavaScript turns into infinities, are outside the model.
\<close>

definition round_half_even :: "real \<Rightarrow> int" where
  "round_half_even q =
     (if q - of_int \<lfloor>q\<rfloor> < 1 / 2 then \<lfloor>q\<rfloor>
      else if 1 / 2 < q - of_int \<lfloor>q\<rfloor> then \<lfloor>q\<rfloor> + 1
      else if even \<lfloor>q\<rfloor> then \<lfloor>q\<rfloor> else \<lfloor>q\<rfloor> + 1)"

definition double_ulp :: "real \<Rightarrow> real" where
  "double_ulp v = 2 powr (of_int (max \<lfloor>log 2 \<bar>v\<bar>\<rfloor> (- 1022)) - 52)"

definition to_double :: "real \<Rightarrow> real" where
  "to_double v =
     (if v = 0 then 0 else of_int (round_half_even (v / double_ulp v)) * double_ulp v)"

text \<open>A real that is a double: rounding leaves it as it is, and it is in range.\<close>

definition is_double :: "real \<Rightarrow> bool" where
  "is_double v \<longleftrightarrow> to_double v = v \<and> \<bar>v\<bar> < 2 ^ 1024"

definition worldToScreen :: "client \<Rightarrow> real \<Rightarrow> real \<Rightarrow> real \<times> real" where
  "worldToScreen s worldX worldY =
     (to_double (worldX - cameraX s), to_double (worldY - cameraY s))"

definition screenToWorld :: "client \<Rightarrow> real \<Rightarrow> real \<Rightarrow> real \<times> real" where
  "screenToWorld s screenX screenY =
     (to_double (screenX + cameraX s), to_double (screenY + cameraY s))"

text \<open>The invariant of the specification on the camera offset.\<close>

definition camera_clamped :: "client \<Rightarrow> bool" where
  "camera_clamped s \<longleftrightarrow>
     0 \<le> cameraX s \<and> cameraX s \<le> max 0 (worldWidth s - viewportWidth s) \<and>
     0 \<le> cameraY s \<and> cameraY s \<le> max 0 (worldHeight s - viewportHeight s)"

subsection \<open>Avatar loading\<close>

text \<open>
  \<^verbatim>\<open>new Image()\<close> followed by \<^verbatim>\<open>img.src = base64Data\<close>: the image has not finished
  loading when \<^verbatim>\<open>loadAvatarImage\<close> returns.
\<close>

definition newImage :: "string \<Rightarrow> image" where
  "newImage base64Data =
     \<lparr>img_src = base64Data, img_complete = False, img_width = 0, img_height = 0\<rparr>"

text \<open>
  The object \<^verbatim>\<open>avatar\<close> that \<^verbatim>\<open>loadAvatarImage\<close> builds from the server's data: the
  name, and one new image for each frame of each direction.
\<close>

definition loadedAvatar :: "avatar_data \<Rightarrow> avatar" where
  "loadedAvatar d =
     \<lparr>av_name = ad_name d,
      av_images =
        \<lparr>north = map newImage (north (ad_frames d)),
         south = map newImage (south (ad_frames d)),
         east = map newImage (east (ad_frames d))\<rparr>\<rparr>"

text \<open>
  \<^verbatim>\<open>loadAvatarImage(avatarData)\<close>. It reads \<^verbatim>\<open>avatarData.frames[direction]\<close>; an
  object of the loaded shape has no \<^verbatim>\<open>frames\<close>, and the read throws a TypeError before
  the map is written.
\<close>

definition loadAvatarImage :: "avatar_entry \<Rightarrow> client \<Rightarrow> completion \<times> client" where
  "loadAvatarImage avatarData s =
     (case avatarData of
        Loaded a \<Rightarrow> (Throw TypeError, s)
      | Raw d \<Rightarrow>
          (Normal,
           s\<lparr>avatars := jm_set (ad_name d) (Loaded (loadedAvatar d)) (avatars s)\<rparr>))"

definition isRaw :: "avatar_entry \<Rightarrow> bool" where
  "isRaw e = (case e of Raw d \<Rightarrow> True | Loaded a \<Rightarrow> False)"

text \<open>
  \<^verbatim>\<open>loadAvatarImages\<close> iterates over \<^verbatim>\<open>this.avatars\<close> while \<^verbatim>\<open>loadAvatarImage\<close>
  writes to it. A \<^verbatim>\<open>Map\<close> iterator is live: it walks the entries by position and
  sees entries replaced or appended during the walk. \<open>loadAvatarImagesFrom i\<close> is the loop
  from position \<open>i\<close> on.
\<close>

function loadAvatarImagesFrom :: "nat \<Rightarrow> client \<Rightarrow> completion \<times> client" where
  "loadAvatarImagesFrom i s =
     (if i < length (avatars s) \<and> isRaw (snd (avatars s ! i))
      then loadAvatarImagesFrom (Suc i) (snd (loadAvatarImage (snd (avatars s ! i)) s))
      else if i < length (avatars s) then loadAvatarImage (snd (avatars s ! i)) s
      else (Normal, s))"
  by pat_completeness auto

text \<open>
  The loop ends: each round leaves one entry of the server's shape less at or after
  the iterator's position, since \<^verbatim>\<open>loadAvatarImage\<close> only ever writes loaded avatars.
\<close>

lemma raw_count_jm_set:
  "length (filter (isRaw \<circ> snd) (drop n (jm_set k (Loaded a) m)))
     \<le> length (filter (isRaw \<circ> snd) (drop n m))"
proof (induction m arbitrary: n)
  case Nil
  then show ?case by (cases n) (simp_all add: isRaw_def)
next
  case (Cons e m)
  obtain k' v' where e: "e = (k', v')" by (cases e)
  show ?case
  proof (cases n)
    case 0
    with Cons [of 0] e show ?thesis by (simp add: isRaw_def)
  next
    case (Suc n')
    with Cons [of n'] e show ?thesis by simp
  qed
qed

termination loadAvatarImagesFrom
proof (relation "measure (\<lambda>(i, s). length (filter (isRaw \<circ> snd) (drop i (avatars s))))")
  show "wf (measure (\<lambda>(i, s). length (filter (isRaw \<circ> snd) (drop i (avatars s)))))"
    by simp
next
  fix i and s :: client
  assume a: "i < length (avatars s) \<and> isRaw (snd (avatars s ! i))"
  then obtain d where d: "snd (avatars s ! i) = Raw d"
    by (cases "snd (avatars s ! i)") (simp_all add: isRaw_def)
  have "drop i (avatars s) = (avatars s ! i) # drop (Suc i) (avatars s)"
    using a by (simp add: Cons_nth_drop_Suc)
  then have "length (filter (isRaw \<circ> snd) (drop i (avatars s)))
      = Suc (length (filter (isRaw \<circ> snd) (drop (Suc i) (avatars s))))"
    using a by simp
  moreover have "length (filter (isRaw \<circ> snd)
        (drop (Suc i) (avatars (snd (loadAvatarImage (snd (avatars s ! i)) s)))))
      \<le> length (filter (isRaw \<circ> snd) (drop (Suc i) (avatars s)))"
    using d by (simp add: loadAvatarImage_def raw_count_jm_set)
  ultimately show "((Suc i, snd (loadAvatarImage (snd (avatars s ! i)) s)), (i, s))
      \<in> measure (\<lambda>(i, s). length (filter (isRaw \<circ> snd) (drop i (avatars s))))"
    by simp
qed

declare loadAvatarImagesFrom.simps [simp del]

definition loadAvatarImages :: "client \<Rightarrow> completion \<times> client" where
  "loadAvatarImages s = loadAvatarImagesFrom 0 s"

subsection \<open>Emotes and their timers\<close>

text \<open>
  \<^verbatim>\<open>startEmoteAnimation\<close>; \<open>now\<close> is the value of \<^verbatim>\<open>Date.now()\<close>. The callback given
  to \<^verbatim>\<open>setTimeout\<close> is recorded with its due time \<open>now + 1500\<close>.
\<close>

definition startEmoteAnimation :: "nat \<Rightarrow> string \<Rightarrow> string \<Rightarrow> client \<Rightarrow> client" where
  "startEmoteAnimation now playerId emoteType s =
     (if emoteType = ''jump''
      then s\<lparr>playerEmotes :=
                jm_set playerId
                  \<lparr>e_type = ''jump'', startTime = now, duration = 1500, bounces = 3\<rparr>
                  (playerEmotes s),
              timers := timers s @ [(now + 1500, playerId)]\<rparr>
      else s)"

text \<open>The body of the callback: \<^verbatim>\<open>this.playerEmotes.delete(playerId)\<close>, then a render.\<close>

definition emoteTimeout :: "string \<Rightarrow> client \<Rightarrow> client" where
  "emoteTimeout playerId s = s\<lparr>playerEmotes := jm_delete playerId (playerEmotes s)\<rparr>"

text \<open>
  The event loop at time \<open>t\<close>: every pending callback that is due by \<open>t\<close> runs, earliest
  due time first and in scheduling order among equal due times, and leaves the queue.
  A callback runs at its due time, not later.
\<close>

definition runTimers :: "nat \<Rightarrow> client \<Rightarrow> client" where
  "runTimers t s =
     fold (\<lambda>cb. emoteTimeout (snd cb))
       (sort_key fst (filter (\<lambda>cb. fst cb \<le> t) (timers s)))
       (s\<lparr>timers := filter (\<lambda>cb. \<not> fst cb \<le> t) (timers s)\<rparr>)"

subsection \<open>Inbound messages\<close>

text \<open>
  A parsed server message, by its \<^verbatim>\<open>action\<close>. The \<^verbatim>\<open>players\<close> and \<^verbatim>\<open>avatars\<close>
  objects are given as \<^verbatim>\<open>Object.entries\<close> lists them.
\<close>

datatype server_msg =
    JoinGame bool string "(string \<times> player) list" "(string \<times> avatar_data) list"
  | PlayerJoined player avatar_data
  | PlayersMoved "(string \<times> player) list"
  | PlayerLeft string
  | Emote string string
  | Unknown string

definition handleJoinGameSuccess ::
  "string \<Rightarrow> (string \<times> player) list \<Rightarrow> (string \<times> avatar_data) list \<Rightarrow> client
     \<Rightarrow> completion \<times> client" where
  "handleJoinGameSuccess playerId msgPlayers msgAvatars s =
     (let s1 = s\<lparr>myPlayerId := Some playerId\<rparr>;
          s2 = fold (\<lambda>(k, playerData) c. c\<lparr>players := jm_set k playerData (players c)\<rparr>)
                 msgPlayers s1;
          s3 = fold (\<lambda>(k, avatarData) c. c\<lparr>avatars := jm_set k (Raw avatarData) (avatars c)\<rparr>)
                 msgAvatars s2;
          s4 = s3\<lparr>myPlayer := jm_get (players s3) playerId\<rparr>;
          s5 = centerViewportOnPlayer s4;
          r = loadAvatarImages s5
      in case fst r of
           Throw e \<Rightarrow> r
         | Normal \<Rightarrow>
             (case myPlayer (snd r) of
                None \<Rightarrow> (Throw TypeError, snd r)
              | Some p \<Rightarrow> (Normal, snd r)))"

definition handlePlayerJoined :: "player \<Rightarrow> avatar_data \<Rightarrow> client \<Rightarrow> completion \<times> client" where
  "handlePlayerJoined msgPlayer msgAvatar s =
     (let s1 = s\<lparr>players := jm_set (p_id msgPlayer) msgPlayer (players s)\<rparr>;
          s2 = s1\<lparr>avatars := jm_set (ad_name msgAvatar) (Raw msgAvatar) (avatars s1)\<rparr>
      in loadAvatarImage (Raw msgAvatar) s2)"

fun handlePlayersMoved :: "(string \<times> player) list \<Rightarrow> client \<Rightarrow> client" where
  "handlePlayersMoved [] s = s"
| "handlePlayersMoved ((playerId, playerData) # rest) s =
     (let s1 = s\<lparr>players := jm_set playerId playerData (players s)\<rparr>;
          s2 = (if Some playerId = myPlayerId s1
                then centerViewportOnPlayer (s1\<lparr>myPlayer := Some playerData\<rparr>)
                else s1)
      in handlePlayersMoved rest s2)"

definition handlePlayerLeft :: "string \<Rightarrow> client \<Rightarrow> client" where
  "handlePlayerLeft playerId s =
     (let s1 = s\<lparr>players := jm_delete playerId (players s)\<rparr>
      in s1\<lparr>playerEmotes := jm_delete playerId (playerEmotes s1)\<rparr>)"

definition handlePlayerEmote :: "nat \<Rightarrow> string \<Rightarrow> string \<Rightarrow> client \<Rightarrow> client" where
  "handlePlayerEmote now playerId emoteType s = startEmoteAnimation now playerId emoteType s"

text \<open>
  \<^verbatim>\<open>handleServerMessage\<close>, with the time at which it runs. The listener
  \<^verbatim>\<open>ws.onmessage\<close> catches what it throws and keeps the state.
\<close>

fun handleServerMessage :: "nat \<Rightarrow> server_msg \<Rightarrow> client \<Rightarrow> completion \<times> client" where
  "handleServerMessage now (JoinGame success playerId msgPlayers msgAvatars) s =
     (if success then handleJoinGameSuccess playerId msgPlayers msgAvatars s
      else (Normal, s))"
| "handleServerMessage now (PlayerJoined msgPlayer msgAvatar) s =
     handlePlayerJoined msgPlayer msgAvatar s"
| "handleServerMessage now (PlayersMoved msgPlayers) s =
     (Normal, handlePlayersMoved msgPlayers s)"
| "handleServerMessage now (PlayerLeft playerId) s = (Normal, handlePlayerLeft playerId s)"
| "handleServerMessage now (Emote playerId emoteType) s =
     (Normal, handlePlayerEmote now playerId emoteType s)"
| "handleServerMessage now (Unknown action) s = (Normal, s)"

definition onmessage :: "nat \<Rightarrow> server_msg \<Rightarrow> client \<Rightarrow> client" where
  "onmessage now message s = snd (handleServerMessage now message s)"

subsection \<open>Drawing a player\<close>

text \<open>
  The calls made on the canvas context. A coordinate that depends on the drawn height is
  a \<open>real option\<close>: \<open>None\<close> stands for a value that is not a finite number.
\<close>

datatype draw_cmd =
    Save
  | Restore
  | Scale real real
  | DrawImage image real "real option" real "real option"
  | FillStyle string
  | Font string
  | TextAlign string
  | FillRect real "real option" real real
  | FillText string real "real option"

text \<open>
  \<^verbatim>\<open>avatar.images[direction]\<close>: the three arrays; any other property name gives no
  array of frames.
\<close>

definition imagesAt :: "image directions \<Rightarrow> string \<Rightarrow> image list option" where
  "imagesAt imgs direction =
     (if direction = ''north'' then Some (north imgs)
      else if direction = ''south'' then Some (south imgs)
      else if direction = ''east'' then Some (east imgs)
      else None)"

text \<open>The remainder operator \<^verbatim>\<open>%\<close> on integers, for a positive divisor.\<close>

definition js_rem :: "int \<Rightarrow> int \<Rightarrow> int" where
  "js_rem a n = (if a < 0 then - ((- a) mod n) else a mod n)"

text \<open>\<^verbatim>\<open>frames[i]\<close>: \<^verbatim>\<open>undefined\<close> outside the array.\<close>

definition elementAt :: "'a list \<Rightarrow> int \<Rightarrow> 'a option" where
  "elementAt xs i = (if 0 \<le> i \<and> i < int (length xs) then Some (xs ! nat i) else None)"

text \<open>
  \<^verbatim>\<open>avatarSize / (avatarImage.width / avatarImage.height)\<close> with \<^verbatim>\<open>avatarSize = 32\<close>.
  A zero width makes the result infinite or NaN; a zero height alone makes it 0.
\<close>

definition avatarHeight :: "image \<Rightarrow> real option" where
  "avatarHeight img =
     (if img_width img = 0 then None
      else if img_height img = 0 then Some 0
      else Some (32 / (img_width img / img_height img)))"

definition drawPlayerLabel :: "string \<Rightarrow> real \<Rightarrow> real option \<Rightarrow> draw_cmd list" where
  "drawPlayerLabel username x y =
     [Save,
      FillStyle ''rgba(0, 0, 0, 0.7)'',
      FillRect (x - real (length username) * 3) (map_option (\<lambda>v. v - 12) y)
        (real (length username) * 6) 14,
      FillStyle ''#ffffff'',
      Font ''12px Arial'',
      TextAlign ''center'',
      FillText username x y,
      Restore]"

text \<open>
  \<^verbatim>\<open>drawPlayer\<close> reads the client and writes to the canvas only; its result is the list
  of canvas calls, empty when it returns early. \<^verbatim>\<open>player.animationFrame || 0\<close> is
  \<^verbatim>\<open>player.animationFrame\<close> for every integer.
\<close>

definition drawPlayer :: "client \<Rightarrow> player \<Rightarrow> draw_cmd list" where
  "drawPlayer s p =
     (let screenPos = worldToScreen s (p_x p) (p_y p) in
      if fst screenPos < - 50 \<or> fst screenPos > viewportWidth s + 50 \<or>
         snd screenPos < - 50 \<or> snd screenPos > viewportHeight s + 50
      then []
      else
        (case jm_get (avatars s) (p_avatar p) of
           None \<Rightarrow> []
         | Some (Raw d) \<Rightarrow> []
         | Some (Loaded a) \<Rightarrow>
             (let direction = (if p_facing p = ''west'' then ''east'' else p_facing p) in
              case imagesAt (av_images a) direction of
                None \<Rightarrow> []
              | Some frames \<Rightarrow>
                  if length frames = 0 then []
                  else
                    (case elementAt frames (js_rem (p_animationFrame p) (int (length frames))) of
                       None \<Rightarrow> []
                     | Some avatarImage \<Rightarrow>
                         if \<not> img_complete avatarImage then []
                         else
                           (let width = 32;
                                height = avatarHeight avatarImage;
                                top = map_option (\<lambda>h. snd screenPos - h / 2) height
                            in [Save] @
                               (if p_facing p = ''west''
                                then [Scale (- 1) 1,
                                      DrawImage avatarImage (- fst screenPos - width / 2) top
                                        width height]
                                else [DrawImage avatarImage (fst screenPos - width / 2) top
                                        width height]) @
                               [Restore] @
                               drawPlayerLabel (p_username p) (fst screenPos)
                                 (map_option (\<lambda>v. v - 5) top))))))"

definition drawPlayers :: "client \<Rightarrow> draw_cmd list" where
  "drawPlayers s = concat (map (\<lambda>e. drawPlayer s (snd e)) (players s))"

subsection \<open>Click to move\<close>

text \<open>\<^verbatim>\<open>Math.round\<close>: the nearest integer, a half rounding up.\<close>

definition Math_round :: "real \<Rightarrow> int" where
  "Math_round v = \<lfloor>v + 1 / 2\<rfloor>"

text \<open>The argument of \<^verbatim>\<open>sendMoveCommand\<close>: a direction string, or two numbers.\<close>

datatype move_arg = Direction string | Target real real

definition sendMoveCommand :: "move_arg \<Rightarrow> client \<Rightarrow> client" where
  "sendMoveCommand a s =
     (if ws s \<noteq> Some OPEN then s
      else s\<lparr>outbox := outbox s @
                [case a of
                   Direction d \<Rightarrow> MoveDirection d
                 | Target tx ty \<Rightarrow> MoveTo (Math_round tx) (Math_round ty)]\<rparr>)"

text \<open>
  The click listener of \<^verbatim>\<open>setupEventListeners\<close>; \<open>screenX\<close> and \<open>screenY\<close> are the
  click position relative to the canvas.
\<close>

definition onClick :: "real \<Rightarrow> real \<Rightarrow> client \<Rightarrow> client" where
  "onClick screenX screenY s =
     (let worldPos = screenToWorld s screenX screenY in
      if fst worldPos \<ge> 0 \<and> fst worldPos \<le> worldWidth s \<and>
         snd worldPos \<ge> 0 \<and> snd worldPos \<le> worldHeight s
      then sendMoveCommand (Target (fst worldPos) (snd worldPos)) s
      else s)"

text \<open>The images handed to \<^verbatim>\<open>drawImage\<close> in a list of canvas calls.\<close>

fun drawnImages :: "draw_cmd list \<Rightarrow> image list" where
  "drawnImages [] = []"
| "drawnImages (DrawImage img dx dy dw dh # cs) = img # drawnImages cs"
| "drawnImages (c # cs) = drawnImages cs"

text \<open>
  What the specification asks of \<^verbatim>\<open>drawPlayer\<close> for a player whose frame set is
  \<open>frames\<close>: the frame at index \<open>animationFrame mod frameCount\<close> is the one image drawn,
  when there is such a frame and it has finished loading (an index is selected for every
  non-negative \<open>animationFrame\<close>, and for a negative one only when \<open>frameCount\<close> divides
  it); otherwise nothing is drawn.
\<close>

definition frame_drawn_from :: "client \<Rightarrow> player \<Rightarrow> image list \<Rightarrow> bool" where
  "frame_drawn_from s p frames \<longleftrightarrow>
     (if frames \<noteq> [] \<and>
         (0 \<le> p_animationFrame p \<or> int (length frames) dvd p_animationFrame p) \<and>
         img_complete (frames ! nat (p_animationFrame p mod int (length frames)))
      then drawnImages (drawPlayer s p)
             = [frames ! nat (p_animationFrame p mod int (length frames))]
      else drawPlayer s p = [])"

subsection \<open>The local-player reference\<close>

text \<open>
  \<^verbatim>\<open>this.myPlayer\<close> is meant to be the registry's entry for \<^verbatim>\<open>this.myPlayerId\<close>;
  with no identity yet, both lookups give nothing.
\<close>

definition local_reference_ok :: "client \<Rightarrow> bool" where
  "local_reference_ok s \<longleftrightarrow>
     myPlayer s = (case myPlayerId s of None \<Rightarrow> None | Some i \<Rightarrow> jm_get (players s) i)"

subsection \<open>Example data\<close>

definition player_at :: "string \<Rightarrow> real \<Rightarrow> real \<Rightarrow> player" where
  "player_at i px py =
     \<lparr>p_id = i, p_username = i, p_x = px, p_y = py, p_facing = ''south'',
      p_avatar = ''knight'', p_animationFrame = 0\<rparr>"

definition knight :: avatar_data where
  "knight = \<lparr>ad_name = ''knight'',
             ad_frames = \<lparr>north = [''n0''], south = [''s0''], east = [''e0'', ''e1'']\<rparr>\<rparr>"

text \<open>
  A client that has started in an 800 by 600 window and handled a welcome for the local
  player \<open>a\<close> with a second player \<open>b\<close>.
\<close>

definition first_welcome :: client where
  "first_welcome =
     onmessage 0
       (JoinGame True ''a'' [(''a'', player_at ''a'' 1000 1000), (''b'', player_at ''b'' 30 40)]
          [(''knight'', knight)])
       (init 800 600)"

text \<open>
  A client whose knight avatar has only east frames, both loaded, and a player facing
  west on animation frame 3.
\<close>

definition east_frame :: "string \<Rightarrow> image" where
  "east_frame src = \<lparr>img_src = src, img_complete = True, img_width = 32, img_height = 48\<rparr>"

definition east_only_client :: client where
  "east_only_client =
     (init 800 600)
       \<lparr>avatars :=
          [(''knight'',
            Loaded \<lparr>av_name = ''knight'',
                    av_images = \<lparr>north = [], south = [],
                                 east = [east_frame ''e0'', east_frame ''e1'']\<rparr>\<rparr>)]\<rparr>"

text \<open>The double nearest to 0.1.\<close>

definition tenth :: real where
  "tenth = 3602879701896397 / 36028797018963968"

definition west_player :: player where
  "west_player = (player_at ''w'' 100 100)\<lparr>p_facing := ''west'', p_animationFrame := 3\<rparr>"

text \<open>The same player facing north.\<close>

definition north_player :: player where
  "north_player = west_player\<lparr>p_facing := ''north''\<rparr>"

section \<open>Maps, avatar loading and the welcome handler\<close>

lemma keys_jm_set: "fst ` set (jm_set k v m) = insert k (fst ` set m)"
proof (induction m)
  case Nil
  then show ?case by simp
next
  case (Cons e m)
  obtain a b where e: "e = (a, b)" by (cases e)
  show ?case
  proof (cases "k = a")
    case True
    then show ?thesis by (simp add: e)
  next
    case False
    then show ?thesis using Cons by (simp add: e) blast
  qed
qed

lemma loadAvatarImage_Raw:
  "\<exists>av1. snd (loadAvatarImage (Raw d) s) = s\<lparr>avatars := av1\<rparr> \<and>
         fst ` set (avatars s) \<subseteq> fst ` set av1"
proof -
  let ?av = "jm_set (ad_name d) (Loaded (loadedAvatar d)) (avatars s)"
  have "snd (loadAvatarImage (Raw d) s) = s\<lparr>avatars := ?av\<rparr>"
    by (simp add: loadAvatarImage_def)
  moreover have "fst ` set (avatars s) \<subseteq> fst ` set ?av"
    unfolding keys_jm_set by blast
  ultimately show ?thesis by blast
qed

lemma loadAvatarImagesFrom_frame:
  "\<exists>av. snd (loadAvatarImagesFrom i s) = s\<lparr>avatars := av\<rparr> \<and>
        fst ` set (avatars s) \<subseteq> fst ` set av"
proof (induction i s rule: loadAvatarImagesFrom.induct)
  case (1 i s)
  show ?case
  proof (cases "i < length (avatars s) \<and> isRaw (snd (avatars s ! i))")
    case True
    define s1 where "s1 = snd (loadAvatarImage (snd (avatars s ! i)) s)"
    from True obtain d where d: "snd (avatars s ! i) = Raw d"
      by (cases "snd (avatars s ! i)") (simp_all add: isRaw_def)
    obtain av1 where s1: "s1 = s\<lparr>avatars := av1\<rparr>" "fst ` set (avatars s) \<subseteq> fst ` set av1"
      unfolding s1_def d using loadAvatarImage_Raw [of d s] by blast
    from "1.IH" [OF True] obtain av where
      av: "snd (loadAvatarImagesFrom (Suc i) s1) = s1\<lparr>avatars := av\<rparr>"
          "fst ` set (avatars s1) \<subseteq> fst ` set av"
      unfolding s1_def by blast
    have step: "loadAvatarImagesFrom i s = loadAvatarImagesFrom (Suc i) s1"
      unfolding s1_def using True by (subst loadAvatarImagesFrom.simps) (rule if_P)
    have "snd (loadAvatarImagesFrom i s) = s\<lparr>avatars := av\<rparr>"
      unfolding step av(1) by (simp add: s1(1))
    moreover have "fst ` set (avatars s) \<subseteq> fst ` set av"
      using s1 av(2) by simp
    ultimately show ?thesis by blast
  next
    case False
    have "loadAvatarImagesFrom i s =
        (if i < length (avatars s) then loadAvatarImage (snd (avatars s ! i)) s else (Normal, s))"
      using False by (subst loadAvatarImagesFrom.simps) (rule if_not_P)
    moreover have "i < length (avatars s) \<Longrightarrow> \<exists>a. snd (avatars s ! i) = Loaded a"
      using False by (cases "snd (avatars s ! i)") (simp_all add: isRaw_def)
    ultimately have "snd (loadAvatarImagesFrom i s) = s"
      by (auto simp: loadAvatarImage_def)
    then show ?thesis by (intro exI [of _ "avatars s"]) simp
  qed
qed


lemma jm_get_Nil: "jm_get [] k = None"
  by (simp add: jm_get_def)

lemma jm_get_Cons: "jm_get ((a, b) # m) k = (if k = a then Some b else jm_get m k)"
  by (simp add: jm_get_def)


lemma jm_get_jm_set: "jm_get (jm_set k v m) k' = (if k' = k then Some v else jm_get m k')"
  by (induction m) (auto simp: jm_get_def)

lemma fold_players_set:
  "fold (\<lambda>(k, playerData) c. c\<lparr>players := jm_set k playerData (players c)\<rparr>) ps s
     = s\<lparr>players := fold (\<lambda>(k, playerData). jm_set k playerData) ps (players s)\<rparr>"
  by (induction ps arbitrary: s) (auto)

lemma fold_avatars_set:
  "fold (\<lambda>(k, avatarData) c. c\<lparr>avatars := jm_set k (Raw avatarData) (avatars c)\<rparr>) avs s
     = s\<lparr>avatars := fold (\<lambda>(k, avatarData). jm_set k (Raw avatarData)) avs (avatars s)\<rparr>"
  by (induction avs arbitrary: s) (auto)


lemma keys_fold_set:
  "fst ` set m \<subseteq> fst ` set (fold (\<lambda>(k, v). jm_set k (f v)) ps m)"
proof (induction ps arbitrary: m)
  case Nil
  then show ?case by simp
next
  case (Cons e ps)
  obtain k' v' where e: "e = (k', v')" by (cases e)
  have "fst ` set m \<subseteq> fst ` set (jm_set k' (f v') m)"
    by (auto simp: keys_jm_set)
  also have "\<dots> \<subseteq> fst ` set (fold (\<lambda>(k, v). jm_set k (f v)) ps (jm_set k' (f v') m))"
    by (rule Cons)
  finally show ?case by (simp add: e)
qed

lemma centerViewportOnPlayer_avatars:
  "centerViewportOnPlayer (s\<lparr>avatars := av\<rparr>) = (centerViewportOnPlayer s)\<lparr>avatars := av\<rparr>"
  by (simp add: centerViewportOnPlayer_def updateViewport_def Let_def split: option.splits)

lemma handleJoinGameSuccess_state:
  "\<exists>av. snd (handleJoinGameSuccess playerId ps avs s) =
     (centerViewportOnPlayer
       (s\<lparr>myPlayerId := Some playerId,
          players := fold (\<lambda>(k, playerData). jm_set k playerData) ps (players s),
          myPlayer := jm_get (fold (\<lambda>(k, playerData). jm_set k playerData) ps (players s)) playerId\<rparr>))
       \<lparr>avatars := av\<rparr> \<and> fst ` set (avatars s) \<subseteq> fst ` set av"
proof -
  define s4 where "s4 = s\<lparr>myPlayerId := Some playerId,
          players := fold (\<lambda>(k, playerData). jm_set k playerData) ps (players s),
          myPlayer := jm_get (fold (\<lambda>(k, playerData). jm_set k playerData) ps (players s)) playerId\<rparr>"
  define av3 where "av3 = fold (\<lambda>(k, avatarData). jm_set k (Raw avatarData)) avs (avatars s)"
  define s5 where "s5 = (centerViewportOnPlayer s4)\<lparr>avatars := av3\<rparr>"
  define s4' where "s4' = s\<lparr>myPlayerId := Some playerId,
          players := fold (\<lambda>(k, playerData). jm_set k playerData) ps (players s),
          avatars := av3,
          myPlayer := jm_get (fold (\<lambda>(k, playerData). jm_set k playerData) ps (players s)) playerId\<rparr>"
  have s4': "s4' = s4\<lparr>avatars := av3\<rparr>"
    by (simp add: s4'_def s4_def)
  have "handleJoinGameSuccess playerId ps avs s =
      (case fst (loadAvatarImages (centerViewportOnPlayer s4')) of
           Throw e \<Rightarrow> loadAvatarImages (centerViewportOnPlayer s4')
         | Normal \<Rightarrow>
             (case myPlayer (snd (loadAvatarImages (centerViewportOnPlayer s4'))) of
                None \<Rightarrow> (Throw TypeError, snd (loadAvatarImages (centerViewportOnPlayer s4')))
              | Some p \<Rightarrow> (Normal, snd (loadAvatarImages (centerViewportOnPlayer s4')))))"
    by (simp add: handleJoinGameSuccess_def Let_def fold_players_set fold_avatars_set s4'_def av3_def
        cong: completion.case_cong option.case_cong)
  then have "snd (handleJoinGameSuccess playerId ps avs s) =
      snd (loadAvatarImages (centerViewportOnPlayer s4'))"
    by (simp split: completion.splits option.splits)
  then have snd_eq: "snd (handleJoinGameSuccess playerId ps avs s) = snd (loadAvatarImages s5)"
    by (simp add: s5_def s4' centerViewportOnPlayer_avatars)
  have av5: "avatars s5 = av3"
    by (simp add: s5_def)
  obtain av where av: "snd (loadAvatarImages s5) = s5\<lparr>avatars := av\<rparr>"
     "fst ` set (avatars s5) \<subseteq> fst ` set av"
    using loadAvatarImagesFrom_frame [of 0 s5] by (auto simp: loadAvatarImages_def)
  have "fst ` set (avatars s) \<subseteq> fst ` set av3"
    unfolding av3_def by (rule keys_fold_set)
  with av av5 have sub: "fst ` set (avatars s) \<subseteq> fst ` set av" by simp
  have "s5\<lparr>avatars := av\<rparr> = (centerViewportOnPlayer s4)\<lparr>avatars := av\<rparr>"
    by (simp add: s5_def)
  with snd_eq av(1) sub show ?thesis unfolding s4_def by auto
qed






lemma jm_get_filter_keys:
  "jm_get (filter (\<lambda>e. P (fst e)) m) k = (if P k then jm_get m k else None)"
  by (induction m) (auto simp: jm_get_def)

lemmas run_simps = onmessage_def handleJoinGameSuccess_def handlePlayerJoined_def Let_def
  init_def constructed_def loadAvatarImages_def loadAvatarImagesFrom.simps
  loadAvatarImage_def loadedAvatar_def isRaw_def centerViewportOnPlayer_def
  updateViewport_def
  jm_get_Cons jm_get_Nil knight_def player_at_def newImage_def

lemma first_welcome_state:
  "first_welcome =
     \<lparr>worldWidth = 2048, worldHeight = 2048,
      players = [(''a'', player_at ''a'' 1000 1000), (''b'', player_at ''b'' 30 40)],
      avatars = [(''knight'', Loaded \<lparr>av_name = ''knight'',
          av_images = \<lparr>north = [newImage ''n0''], south = [newImage ''s0''],
                       east = [newImage ''e0'', newImage ''e1'']\<rparr>\<rparr>)],
      myPlayerId = Some ''a'', myPlayer = Some (player_at ''a'' 1000 1000), playerEmotes = [],
      cameraX = 600, cameraY = 700, viewportWidth = 800, viewportHeight = 600,
      ws = Some CONNECTING, timers = [], outbox = []\<rparr>"
  by (simp add: first_welcome_def run_simps)

section \<open>Timers\<close>

lemma fold_emoteTimeout:
  "fold (\<lambda>cb. emoteTimeout (snd cb)) cbs s
     = s\<lparr>playerEmotes := filter (\<lambda>e. fst e \<notin> snd ` set cbs) (playerEmotes s)\<rparr>"
proof (induction cbs arbitrary: s)
  case Nil
  then show ?case by simp
next
  case (Cons cb cbs)
  have "filter (\<lambda>e. fst e \<notin> snd ` set cbs) (jm_delete (snd cb) (playerEmotes s))
      = filter (\<lambda>e. fst e \<notin> snd ` set (cb # cbs)) (playerEmotes s)"
    by (auto simp: jm_delete_def intro: filter_cong)
  with Cons show ?case by (simp add: emoteTimeout_def)
qed

lemma runTimers_eq:
  "runTimers t s =
     s\<lparr>timers := filter (\<lambda>cb. \<not> fst cb \<le> t) (timers s),
       playerEmotes :=
         filter (\<lambda>e. fst e \<notin> snd ` {cb \<in> set (timers s). fst cb \<le> t}) (playerEmotes s)\<rparr>"
  by (simp add: runTimers_def fold_emoteTimeout)

lemma timers_runTimers: "timers (runTimers t s) = filter (\<lambda>cb. \<not> fst cb \<le> t) (timers s)"
  by (simp add: runTimers_eq)

text \<open>
  An emote is there after the callbacks due by \<open>t\<close> have run exactly when it was there
  before and none of those callbacks was for its player.
\<close>

lemma emote_after_runTimers:
  "jm_get (playerEmotes (runTimers t s)) e =
     (if \<exists>cb \<in> set (timers s). fst cb \<le> t \<and> snd cb = e then None
      else jm_get (playerEmotes s) e)"
  using jm_get_filter_keys
    [of "\<lambda>k. k \<notin> snd ` {cb \<in> set (timers s). fst cb \<le> t}" "playerEmotes s" e]
  by (auto simp: runTimers_eq image_iff)

section \<open>Frame selection\<close>

lemma elementAt_js_rem:
  assumes "xs \<noteq> []"
  shows "elementAt xs (js_rem a (int (length xs))) =
           (if 0 \<le> a \<or> int (length xs) dvd a
            then Some (xs ! nat (a mod int (length xs))) else None)"
proof (cases "0 \<le> a")
  case True
  with assms show ?thesis by (simp add: elementAt_def js_rem_def)
next
  case False
  from assms have n: "0 < int (length xs)" by simp
  show ?thesis
  proof (cases "int (length xs) dvd a")
    case True
    then have "(- a) mod int (length xs) = 0" "a mod int (length xs) = 0" by simp_all
    with False n show ?thesis by (simp add: elementAt_def js_rem_def True)
  next
    case nd: False
    then have "(- a) mod int (length xs) \<noteq> 0" by (simp add: mod_eq_0_iff_dvd)
    moreover from n have "0 \<le> (- a) mod int (length xs)" by simp
    ultimately have "- ((- a) mod int (length xs)) < 0" by linarith
    with False nd show ?thesis by (simp add: elementAt_def js_rem_def)
  qed
qed

lemma drawnImages_label: "drawnImages (drawPlayerLabel u x y) = []"
  by (simp add: drawPlayerLabel_def)

section \<open>Doubles\<close>

lemma double_ulp_eval:
  assumes "2 powr of_int e \<le> \<bar>v\<bar>" and "\<bar>v\<bar> < 2 powr of_int (e + 1)" and "- 1022 \<le> e"
  shows "double_ulp v = 2 powr of_int (e - 52)"
proof -
  have "0 < (2::real) powr of_int e" by simp
  with assms(1) have "0 < \<bar>v\<bar>" by linarith
  then have "\<lfloor>log 2 \<bar>v\<bar>\<rfloor> = e"
    using assms(1,2) by (simp add: floor_log_eq_powr_iff)
  with assms(3) show ?thesis by (simp add: double_ulp_def max_def)
qed

lemma round_half_even_of_int: "round_half_even (of_int z) = z"
  by (simp add: round_half_even_def)

text \<open>Every integer of magnitude below \<open>2 ^ 53\<close> is a double.\<close>

lemma to_double_of_int:
  assumes "\<bar>m\<bar> < 2 ^ 53"
  shows "to_double (of_int m) = of_int m"
proof (cases "m = 0")
  case True
  then show ?thesis by (simp add: to_double_def)
next
  case False
  define e where "e = \<lfloor>log 2 \<bar>real_of_int m\<bar>\<rfloor>"
  have pos: "1 \<le> \<bar>real_of_int m\<bar>" using False by (simp flip: of_int_abs)
  have "0 \<le> log 2 \<bar>real_of_int m\<bar>" using pos by simp
  then have e0: "0 \<le> e" by (simp add: e_def)
  have "\<bar>real_of_int m\<bar> < 2 ^ 53"
    using assms by (metis of_int_abs of_int_less_numeral_power_cancel_iff)
  then have "log 2 \<bar>real_of_int m\<bar> < 53"
    using pos by (simp add: log_less_iff powr_numeral del: powr_numeral)
  then have e52: "e \<le> 52" unfolding e_def by linarith
  define j where "j = nat (52 - e)"
  have u: "double_ulp (of_int m) = 1 / 2 ^ j"
  proof -
    have "max e (- 1022) = e" using e0 by simp
    then have "double_ulp (of_int m) = 2 powr (of_int e - 52)"
      by (simp add: double_ulp_def e_def)
    also have "of_int e - 52 = - real j" using e52 by (simp add: j_def)
    also have "2 powr (- real j) = 1 / 2 ^ j"
      by (simp add: powr_minus powr_realpow divide_inverse)
    finally show ?thesis .
  qed
  have "of_int m / double_ulp (of_int m) = real_of_int (m * 2 ^ j)"
    by (simp add: u)
  then have "round_half_even (of_int m / double_ulp (of_int m)) = m * 2 ^ j"
    by (simp only: round_half_even_of_int)
  then show ?thesis using False by (simp add: to_double_def u)
qed

lemma is_double_of_int:
  assumes "\<bar>m\<bar> < 2 ^ 53"
  shows "is_double (of_int m)"
proof -
  have "\<bar>real_of_int m\<bar> < 2 ^ 53"
    using assms by (metis of_int_abs of_int_less_numeral_power_cancel_iff)
  also have "(2::real) ^ 53 < 2 ^ 1024" by simp
  finally show ?thesis using to_double_of_int [OF assms] by (simp add: is_double_def)
qed

lemma to_double_eval:
  assumes "2 powr of_int e \<le> \<bar>v\<bar>" and "\<bar>v\<bar> < 2 powr of_int (e + 1)" and "- 1022 \<le> e"
  shows "to_double v =
           of_int (round_half_even (v / 2 powr of_int (e - 52))) * 2 powr of_int (e - 52)"
proof -
  have "0 < (2::real) powr of_int e" by simp
  with assms(1) have "v \<noteq> 0" by linarith
  then show ?thesis
    by (simp add: to_double_def double_ulp_eval [OF assms])
qed

lemma to_double_numeral:
  "numeral n < (2::int) ^ 53 \<Longrightarrow> to_double (numeral n) = numeral n"
  using to_double_of_int [of "numeral n"] by simp

lemma is_double_tenth: "is_double tenth"
  using to_double_eval [of "- 4" tenth]
  by (simp add: is_double_def tenth_def powr_neg_numeral round_half_even_def)

lemma to_double_tenth_minus_600:
  "to_double (tenth - 600) = - (5276776204022579 / 8796093022208)"
  using to_double_eval [of 9 "tenth - 600"]
  by (simp add: tenth_def powr_neg_numeral round_half_even_def)

lemma to_double_back:
  "to_double (879609302221 / 8796093022208) = 879609302221 / 8796093022208"
  using to_double_eval [of "- 4" "879609302221 / 8796093022208"]
  by (simp add: powr_neg_numeral round_half_even_def)

lemma to_double_click_x: "to_double (52 / 5) = 5854679515581645 / 562949953421312"
  using to_double_eval [of 3 "52 / 5"]
  by (simp add: powr_neg_numeral round_half_even_def)

lemma to_double_click_y: "to_double (41 / 2) = 41 / 2"
  using to_double_eval [of 4 "41 / 2"]
  by (simp add: powr_neg_numeral round_half_even_def)

lemma click_target:
  "screenToWorld (onopen (init 800 600)) (52 / 5) (41 / 2)
     = (5854679515581645 / 562949953421312, 41 / 2)"
  by (simp add: screenToWorld_def init_def constructed_def onopen_def joinGame_def
      to_double_click_x to_double_click_y)

lemma to_double_10: "to_double 10 = 10"
  using to_double_of_int [of 10] by simp

lemma to_double_100: "to_double 100 = 100"
  using to_double_of_int [of 100] by simp

section \<open>Properties\<close>

subsection \<open>Coordinate transform\<close>

text \<open>
  Claim C6, as the code has it. The transforms subtract and add in double arithmetic,
  so the round trip is exact when nothing is rounded on the way: for a world point whose
  coordinates are doubles and whose differences from the camera offset are doubles too,
  and in particular for integer coordinates and integer offsets of magnitude below
  \<open>2 ^ 52\<close>, mapping the point to the screen and back gives the point again. Both
  transforms are functions of the client and the point that return a point only: they
  change no state, and they are defined on every finite input.
\<close>

theorem round_trip_exact_cases:
  "(is_double wx \<and> is_double wy \<and>
    is_double (wx - cameraX s) \<and> is_double (wy - cameraY s) \<longrightarrow>
      screenToWorld s (fst (worldToScreen s wx wy)) (snd (worldToScreen s wx wy)) = (wx, wy)) \<and>
   (\<bar>mx\<bar> < 2 ^ 52 \<and> \<bar>my\<bar> < 2 ^ 52 \<and> \<bar>cx\<bar> < 2 ^ 52 \<and> \<bar>cy\<bar> < 2 ^ 52 \<and>
    cameraX s = of_int cx \<and> cameraY s = of_int cy \<longrightarrow>
      screenToWorld s (fst (worldToScreen s (of_int mx) (of_int my)))
          (snd (worldToScreen s (of_int mx) (of_int my)))
        = (of_int mx, of_int my))"
proof (intro conjI impI)
  assume "is_double wx \<and> is_double wy \<and>
    is_double (wx - cameraX s) \<and> is_double (wy - cameraY s)"
  then show "screenToWorld s (fst (worldToScreen s wx wy)) (snd (worldToScreen s wx wy))
      = (wx, wy)"
    by (simp add: screenToWorld_def worldToScreen_def is_double_def)
next
  assume a: "\<bar>mx\<bar> < 2 ^ 52 \<and> \<bar>my\<bar> < 2 ^ 52 \<and> \<bar>cx\<bar> < 2 ^ 52 \<and> \<bar>cy\<bar> < 2 ^ 52 \<and>
    cameraX s = of_int cx \<and> cameraY s = of_int cy"
  then have "\<bar>mx - cx\<bar> < 2 ^ 53" "\<bar>my - cy\<bar> < 2 ^ 53" "\<bar>mx\<bar> < 2 ^ 53" "\<bar>my\<bar> < 2 ^ 53"
    by simp_all arith+
  then have "to_double (of_int (mx - cx)) = of_int (mx - cx)"
    "to_double (of_int (my - cy)) = of_int (my - cy)"
    "to_double (of_int mx) = of_int mx" "to_double (of_int my) = of_int my"
    by (simp_all only: to_double_of_int)
  with a show "screenToWorld s (fst (worldToScreen s (of_int mx) (of_int my)))
          (snd (worldToScreen s (of_int mx) (of_int my)))
        = (of_int mx, of_int my)"
    by (simp add: screenToWorld_def worldToScreen_def)
qed

text \<open>
  After the first welcome the camera is at (600, 700); the point (1000, 1000) maps to
  the screen and back to itself.
\<close>

theorem round_trip_exact_cases_witness:
  "\<bar>1000 :: int\<bar> < 2 ^ 52 \<and> \<bar>600 :: int\<bar> < 2 ^ 52 \<and> \<bar>700 :: int\<bar> < 2 ^ 52 \<and>
   cameraX first_welcome = of_int 600 \<and> cameraY first_welcome = of_int 700 \<and>
   is_double 1000 \<and> is_double (1000 - cameraX first_welcome) \<and>
   is_double (1000 - cameraY first_welcome) \<and>
   screenToWorld first_welcome (fst (worldToScreen first_welcome 1000 1000))
       (snd (worldToScreen first_welcome 1000 1000)) = (1000, 1000)"
proof -
  have d: "is_double 1000" "is_double 400" "is_double 300"
    using is_double_of_int [of 1000] is_double_of_int [of 400] is_double_of_int [of 300]
    by simp_all
  have c: "cameraX first_welcome = 600" "cameraY first_welcome = 700"
    by (simp_all add: first_welcome_state)
  show ?thesis
    using d c round_trip_exact_cases [of 1000 1000 first_welcome 1000 1000 600 700]
    by simp
qed

text \<open>
  Claim C6 as stated fails: with the camera at (600, 700), the world point whose x is
  the double nearest to 0.1 comes back with x = 0.10000000000002274, since
  \<open>0.1 - 600\<close> is rounded.
\<close>

theorem round_trip_rounds_counterexample:
  "is_double tenth \<and> is_double 1000 \<and>
   screenToWorld first_welcome (fst (worldToScreen first_welcome tenth 1000))
       (snd (worldToScreen first_welcome tenth 1000))
     = (879609302221 / 8796093022208, 1000) \<and>
   (879609302221 / 8796093022208, 1000) \<noteq> (tenth, 1000 :: real)"
proof -
  have "is_double 1000" using is_double_of_int [of 1000] by simp
  moreover have "(879609302221 / 8796093022208 :: real) \<noteq> tenth"
    by (simp add: tenth_def)
  ultimately show ?thesis
    by (simp add: is_double_tenth screenToWorld_def worldToScreen_def first_welcome_state
        to_double_tenth_minus_600 to_double_back to_double_numeral)
qed


subsection \<open>Camera\<close>

lemma camera_clamped_updateViewport: "camera_clamped (updateViewport s)"
  by (simp add: camera_clamped_def updateViewport_def Let_def) linarith

text \<open>
  Claim C5. After \<^verbatim>\<open>updateViewport\<close>, after a resize, and after recentering on the
  local player, the camera offset lies between 0 and \<open>max 0 (world - viewport)\<close> in both
  axes. Recentering with no local player leaves the camera as it was, so there the bound
  is kept rather than established. When the viewport is at least as wide (high) as the
  world, the offset in that axis is 0.
\<close>

theorem camera_always_clamped:
  "camera_clamped (updateViewport s) \<and>
   camera_clamped (onResize w h s) \<and>
   (myPlayer s \<noteq> None \<or> camera_clamped s \<longrightarrow> camera_clamped (centerViewportOnPlayer s)) \<and>
   (worldWidth s \<le> viewportWidth s \<longrightarrow>
      cameraX (updateViewport s) = 0 \<and>
      cameraX (centerViewportOnPlayer (s\<lparr>myPlayer := Some p\<rparr>)) = 0) \<and>
   (worldHeight s \<le> viewportHeight s \<longrightarrow>
      cameraY (updateViewport s) = 0 \<and>
      cameraY (centerViewportOnPlayer (s\<lparr>myPlayer := Some p\<rparr>)) = 0)"
  by (auto simp: camera_clamped_updateViewport onResize_def centerViewportOnPlayer_def
      split: option.splits) (simp_all add: updateViewport_def Let_def min_def max_def)

theorem camera_always_clamped_witness:
  "camera_clamped (centerViewportOnPlayer
      ((init 3000 2500)\<lparr>myPlayer := Some (player_at ''a'' 100 200)\<rparr>)) \<and>
   cameraX (updateViewport ((init 3000 2500)\<lparr>myPlayer := Some (player_at ''a'' 100 200)\<rparr>)) = 0 \<and>
   cameraY (updateViewport ((init 3000 2500)\<lparr>myPlayer := Some (player_at ''a'' 100 200)\<rparr>)) = 0 \<and>
   worldWidth (init 3000 2500) \<le> viewportWidth (init 3000 2500) \<and>
   worldHeight (init 3000 2500) \<le> viewportHeight (init 3000 2500)"
  using camera_always_clamped
    [of "(init 3000 2500)\<lparr>myPlayer := Some (player_at ''a'' 100 200)\<rparr>" 3000 2500
        "player_at ''a'' 100 200"]
  by (simp add: init_def constructed_def)

text \<open>
  The bound holds when the client starts and is kept by every inbound message, so it
  holds in every state the client reaches through them.
\<close>

lemma camera_clamped_init: "camera_clamped (init w h)"
  by (simp add: camera_clamped_def init_def constructed_def)

lemma camera_clamped_center:
  "camera_clamped s \<Longrightarrow> camera_clamped (centerViewportOnPlayer s)"
  by (simp add: centerViewportOnPlayer_def camera_clamped_updateViewport split: option.splits)

lemma camera_clamped_handlePlayersMoved:
  "camera_clamped s \<Longrightarrow> camera_clamped (handlePlayersMoved ps s)"
proof (induction ps arbitrary: s)
  case Nil
  then show ?case by simp
next
  case (Cons e ps)
  obtain k v where e: "e = (k, v)" by (cases e)
  have 1: "camera_clamped (s\<lparr>players := jm_set k v (players s)\<rparr>)"
    using Cons.prems by (simp add: camera_clamped_def)
  have 2: "camera_clamped (centerViewportOnPlayer
      (s\<lparr>players := jm_set k v (players s), myPlayer := Some v\<rparr>))"
    by (rule camera_clamped_center) (use Cons.prems in \<open>simp add: camera_clamped_def\<close>)
  show ?case
    unfolding e handlePlayersMoved.simps Let_def
    by (rule Cons.IH) (use 1 2 in simp)
qed

lemma camera_clamped_onmessage:
  assumes "camera_clamped s"
  shows "camera_clamped (onmessage now m s)"
proof (cases m)
  case (JoinGame success playerId ps avs)
  show ?thesis
  proof (cases success)
    case True
    obtain av where "onmessage now m s =
     (centerViewportOnPlayer
       (s\<lparr>myPlayerId := Some playerId,
          players := fold (\<lambda>(k, playerData). jm_set k playerData) ps (players s),
          myPlayer := jm_get (fold (\<lambda>(k, playerData). jm_set k playerData) ps (players s)) playerId\<rparr>))
       \<lparr>avatars := av\<rparr>"
      using handleJoinGameSuccess_state [of playerId ps avs s] JoinGame True
      by (auto simp: onmessage_def)
    moreover have "camera_clamped (centerViewportOnPlayer
       (s\<lparr>myPlayerId := Some playerId,
          players := fold (\<lambda>(k, playerData). jm_set k playerData) ps (players s),
          myPlayer := jm_get (fold (\<lambda>(k, playerData). jm_set k playerData) ps (players s)) playerId\<rparr>))"
      by (rule camera_clamped_center) (use assms in \<open>simp add: camera_clamped_def\<close>)
    ultimately show ?thesis by (simp add: camera_clamped_def)
  next
    case False
    with JoinGame assms show ?thesis by (simp add: onmessage_def)
  qed
next
  case (PlayerJoined p a)
  with assms show ?thesis
    by (simp add: onmessage_def handlePlayerJoined_def loadAvatarImage_def Let_def
        camera_clamped_def)
next
  case (PlayersMoved ps)
  with assms show ?thesis
    by (simp add: onmessage_def camera_clamped_handlePlayersMoved)
next
  case (PlayerLeft i)
  with assms show ?thesis
    by (simp add: onmessage_def handlePlayerLeft_def Let_def camera_clamped_def)
next
  case (Emote i k)
  with assms show ?thesis
    by (simp add: onmessage_def handlePlayerEmote_def startEmoteAnimation_def camera_clamped_def)
next
  case (Unknown a)
  with assms show ?thesis by (simp add: onmessage_def)
qed

text \<open>
  Claim C7. Clamping twice is clamping once. In the 2048 by 2048 world with a viewport
  of 800 by 600, centering on a player at (2040, 2040) gives the offset (1248, 1448);
  the offset before clamping would be (1640, 1740).
\<close>

theorem clamp_idempotent_and_example:
  "updateViewport (updateViewport s) = updateViewport s \<and>
   cameraX (centerViewportOnPlayer
     (s\<lparr>worldWidth := 2048, worldHeight := 2048, viewportWidth := 800, viewportHeight := 600,
        myPlayer := Some (p\<lparr>p_x := 2040, p_y := 2040\<rparr>)\<rparr>)) = 1248 \<and>
   cameraY (centerViewportOnPlayer
     (s\<lparr>worldWidth := 2048, worldHeight := 2048, viewportWidth := 800, viewportHeight := 600,
        myPlayer := Some (p\<lparr>p_x := 2040, p_y := 2040\<rparr>)\<rparr>)) = 1448"
  by (simp add: updateViewport_def centerViewportOnPlayer_def Let_def)

subsection \<open>Click to move\<close>

lemma Math_round_nearest:
  "v - 1 / 2 < real_of_int (Math_round v) \<and> real_of_int (Math_round v) \<le> v + 1 / 2"
  unfolding Math_round_def by linarith

text \<open>
  Claim C9, as the code has it. A click sends a move message if and only if the clicked
  point maps to a world target inside \<open>[0, worldWidth] \<times> [0, worldHeight]\<close> and the socket
  is open. The message carries the target rounded to the nearest integers and is the
  only change to the client; any other click changes nothing.
\<close>

theorem click_to_move:
  "onClick sx sy s =
     (if (0 \<le> fst (screenToWorld s sx sy) \<and> fst (screenToWorld s sx sy) \<le> worldWidth s \<and>
          0 \<le> snd (screenToWorld s sx sy) \<and> snd (screenToWorld s sx sy) \<le> worldHeight s) \<and>
         ws s = Some OPEN
      then s\<lparr>outbox := outbox s @
                [MoveTo (Math_round (fst (screenToWorld s sx sy)))
                        (Math_round (snd (screenToWorld s sx sy)))]\<rparr>
      else s) \<and>
   (outbox (onClick sx sy s) \<noteq> outbox s) =
     ((0 \<le> fst (screenToWorld s sx sy) \<and> fst (screenToWorld s sx sy) \<le> worldWidth s \<and>
       0 \<le> snd (screenToWorld s sx sy) \<and> snd (screenToWorld s sx sy) \<le> worldHeight s) \<and>
      ws s = Some OPEN) \<and>
   v - 1 / 2 < real_of_int (Math_round v) \<and> real_of_int (Math_round v) \<le> v + 1 / 2"
  using Math_round_nearest [of v]
  by (auto simp add: onClick_def sendMoveCommand_def Let_def)

text \<open>
  Claim C9 as stated fails: a click at (10, 10) before the socket has opened maps to a
  world target inside the bounds, and nothing is sent.
\<close>

theorem click_before_open_counterexample:
  "0 \<le> fst (screenToWorld (init 800 600) 10 10) \<and>
   fst (screenToWorld (init 800 600) 10 10) \<le> worldWidth (init 800 600) \<and>
   0 \<le> snd (screenToWorld (init 800 600) 10 10) \<and>
   snd (screenToWorld (init 800 600) 10 10) \<le> worldHeight (init 800 600) \<and>
   outbox (onClick 10 10 (init 800 600)) = outbox (init 800 600)"
  by (simp add: onClick_def sendMoveCommand_def Let_def screenToWorld_def init_def
      constructed_def to_double_10)

text \<open>With the socket open, a click at (10.4, 20.5) sends the target (10, 21).\<close>

theorem click_to_move_witness:
  "outbox (onClick (52 / 5) (41 / 2) (onopen (init 800 600)))
     = [JoinGameMsg ''Praise'', MoveTo 10 21]"
proof -
  note t = click_to_move [of "52 / 5" "41 / 2" "onopen (init 800 600)" 0,
      unfolded click_target fst_conv snd_conv]
  then show ?thesis
    by (simp add: init_def constructed_def onopen_def joinGame_def Math_round_def)
qed

subsection \<open>Inbound messages\<close>

text \<open>
  Claim C10. A \<^verbatim>\<open>join_game\<close> response that is not a success leaves the whole client as
  it was: the handler completes normally with the state it was given.
\<close>

theorem join_game_failure_keeps_state:
  "handleServerMessage now (JoinGame False playerId msgPlayers msgAvatars) s = (Normal, s) \<and>
   onmessage now (JoinGame False playerId msgPlayers msgAvatars) s = s"
  by (simp add: onmessage_def)




subsection \<open>The local-player reference\<close>

lemma centerViewportOnPlayer_fields:
  "players (centerViewportOnPlayer s) = players s \<and>
   myPlayerId (centerViewportOnPlayer s) = myPlayerId s \<and>
   myPlayer (centerViewportOnPlayer s) = myPlayer s"
  by (simp add: centerViewportOnPlayer_def updateViewport_def Let_def split: option.splits)

text \<open>A \<^verbatim>\<open>players_moved\<close> message keeps the reference in step with the registry.\<close>

lemma handlePlayersMoved_keeps_reference:
  "local_reference_ok s \<Longrightarrow> local_reference_ok (handlePlayersMoved ps s)"
proof (induction ps arbitrary: s)
  case Nil
  then show ?case by simp
next
  case (Cons e ps)
  obtain k v where e: "e = (k, v)" by (cases e)
  show ?case
    unfolding e handlePlayersMoved.simps Let_def
    by (rule Cons.IH)
       (use Cons.prems in \<open>auto simp: local_reference_ok_def centerViewportOnPlayer_fields
          jm_get_jm_set split: option.splits\<close>)
qed

text \<open>
  Claim C3 fails on the code. After the welcome for the local player \<open>a\<close> the reference
  is the registry's entry. A \<^verbatim>\<open>player_joined\<close> message for the id \<open>a\<close> with a new
  position replaces the registry's entry and leaves \<^verbatim>\<open>this.myPlayer\<close> at the old
  object: the two differ.
\<close>

theorem player_joined_leaves_stale_reference:
  "local_reference_ok first_welcome \<and>
   myPlayerId (onmessage 100 (PlayerJoined (player_at ''a'' 50 60) knight) first_welcome)
     = Some ''a'' \<and>
   jm_get (players (onmessage 100 (PlayerJoined (player_at ''a'' 50 60) knight) first_welcome))
      ''a''
     = Some (player_at ''a'' 50 60) \<and>
   myPlayer (onmessage 100 (PlayerJoined (player_at ''a'' 50 60) knight) first_welcome)
     = Some (player_at ''a'' 1000 1000) \<and>
   \<not> local_reference_ok
       (onmessage 100 (PlayerJoined (player_at ''a'' 50 60) knight) first_welcome)"
  by (simp add: first_welcome_state local_reference_ok_def onmessage_def
      handlePlayerJoined_def loadAvatarImage_def knight_def jm_get_Cons jm_get_Nil
      player_at_def Let_def)

subsection \<open>Emotes\<close>

text \<open>
  Claim C4, as the code has it. Time is the clock of the event loop: a query at time
  \<open>t\<close> sees the emote map after the callbacks due by \<open>t\<close> have run, and no other event
  comes in between. An emote message of type \<^verbatim>\<open>jump\<close> for player \<open>e\<close>, handled at \<open>t0\<close>
  when no callback for \<open>e\<close> is pending with a due time before \<open>t0 + 1500\<close>, stores the
  emote with start time \<open>t0\<close> and duration 1500; it is there at every time before
  \<open>t0 + 1500\<close> and gone from \<open>t0 + 1500\<close> on. An emote message of any other type changes
  nothing.
\<close>

theorem emote_lifetime:
  assumes "\<forall>cb \<in> set (timers s). snd cb = e \<longrightarrow> t0 + 1500 \<le> fst cb"
  shows "jm_get (playerEmotes (runTimers t (onmessage t0 (Emote e ''jump'') s))) e =
           (if t < t0 + 1500
            then Some \<lparr>e_type = ''jump'', startTime = t0, duration = 1500, bounces = 3\<rparr>
            else None) \<and>
         (k \<noteq> ''jump'' \<longrightarrow> onmessage t0 (Emote e k) s = s)"
  using assms
  by (auto simp: emote_after_runTimers onmessage_def handlePlayerEmote_def
      startEmoteAnimation_def jm_get_jm_set)

text \<open>
  While a jump of player \<open>p2\<close> from time 0 is pending, a jump of \<open>p1\<close> starts at 100: it
  is there at 1599 and gone at 1600. A \<^verbatim>\<open>wave\<close> changes nothing.
\<close>

theorem emote_lifetime_witness:
  "jm_get (playerEmotes (runTimers 1599
      (onmessage 100 (Emote ''p1'' ''jump'')
         (onmessage 0 (Emote ''p2'' ''jump'') (init 800 600))))) ''p1''
     = Some \<lparr>e_type = ''jump'', startTime = 100, duration = 1500, bounces = 3\<rparr> \<and>
   jm_get (playerEmotes (runTimers 1600
      (onmessage 100 (Emote ''p1'' ''jump'')
         (onmessage 0 (Emote ''p2'' ''jump'') (init 800 600))))) ''p1''
     = None \<and>
   onmessage 100 (Emote ''p1'' ''wave'') (onmessage 0 (Emote ''p2'' ''jump'') (init 800 600))
     = onmessage 0 (Emote ''p2'' ''jump'') (init 800 600)"
proof -
  have h: "\<forall>cb \<in> set (timers (onmessage 0 (Emote ''p2'' ''jump'') (init 800 600))).
             snd cb = ''p1'' \<longrightarrow> 100 + 1500 \<le> fst cb"
    by (simp add: onmessage_def handlePlayerEmote_def startEmoteAnimation_def init_def
        constructed_def)
  show ?thesis
    using emote_lifetime [OF h, where t = 1599 and k = "''wave''"]
      emote_lifetime [OF h, where t = 1600 and k = "''wave''"]
    by simp
qed

text \<open>
  Claim C4 as stated fails for a type other than \<^verbatim>\<open>jump\<close>: a \<^verbatim>\<open>wave\<close> for \<open>p1\<close> at
  time 0 starts no effect, and none is there at time 0.
\<close>

theorem emote_other_kind_counterexample:
  "jm_get (playerEmotes (onmessage 0 (Emote ''p1'' ''wave'') (init 800 600))) ''p1'' = None \<and>
   jm_get (playerEmotes (runTimers 0 (onmessage 0 (Emote ''p1'' ''wave'') (init 800 600))))
      ''p1'' = None"
  by (simp add: runTimers_def onmessage_def handlePlayerEmote_def startEmoteAnimation_def
      init_def constructed_def emoteTimeout_def jm_delete_def jm_get_def)

text \<open>
  Two jumps of one player, the second before the first has run out: the callback of the
  first removes the emote of the second at \<open>t0 + 1500\<close>.
\<close>

lemma emote_restart_cut_short:
  assumes "t0 < t1" and "t1 < t0 + 1500"
  shows "jm_get (playerEmotes (runTimers (t0 + 1500)
           (onmessage t1 (Emote e ''jump'')
              (runTimers t1 (onmessage t0 (Emote e ''jump'') s))))) e = None"
  using assms
  by (auto simp: emote_after_runTimers onmessage_def handlePlayerEmote_def
      startEmoteAnimation_def timers_runTimers)

text \<open>
  Claim C2 fails on the code. Player \<open>p1\<close> jumps at time 0 and again at time 1000. The
  second emote, with start time 1000 and duration 1500, is there at 1499 and gone at
  1500, when the callback of the first jump runs; the claim has it last until 2500.
\<close>

theorem emote_restart_removed_early:
  "jm_get (playerEmotes (runTimers 1499
      (onmessage 1000 (Emote ''p1'' ''jump'')
        (runTimers 1000 (onmessage 0 (Emote ''p1'' ''jump'') (init 800 600)))))) ''p1''
     = Some \<lparr>e_type = ''jump'', startTime = 1000, duration = 1500, bounces = 3\<rparr> \<and>
   jm_get (playerEmotes (runTimers 1500
      (onmessage 1000 (Emote ''p1'' ''jump'')
        (runTimers 1000 (onmessage 0 (Emote ''p1'' ''jump'') (init 800 600)))))) ''p1''
     = None"
  by (simp add: runTimers_def onmessage_def handlePlayerEmote_def startEmoteAnimation_def
      init_def constructed_def emoteTimeout_def jm_delete_def jm_get_def)

subsection \<open>Drawing a player\<close>

text \<open>
  Claim C8. For a player inside the viewport and its margin: with no avatar entry, or
  one that has no images yet, nothing is drawn. Otherwise a player facing north is
  drawn from the north frames, one facing south from the south frames, one facing east
  from the east frames and one facing west from the east frames as well; a player with
  any other facing is not drawn. Drawn from a frame set means: with an empty set, no
  frame at the selected index or a frame that has not finished loading, nothing is
  drawn; otherwise exactly one image is drawn, the frame at index
  \<open>animationFrame mod frameCount\<close>. The drawing is mirrored exactly for a player facing
  west. \<^verbatim>\<open>drawPlayer\<close> returns canvas calls only: it cannot throw and it changes no
  state.
\<close>

theorem drawPlayer_frame_selection:
  assumes "- 50 \<le> fst (worldToScreen s (p_x p) (p_y p))"
      and "fst (worldToScreen s (p_x p) (p_y p)) \<le> viewportWidth s + 50"
      and "- 50 \<le> snd (worldToScreen s (p_x p) (p_y p))"
      and "snd (worldToScreen s (p_x p) (p_y p)) \<le> viewportHeight s + 50"
  shows
    "(case jm_get (avatars s) (p_avatar p) of
        None \<Rightarrow> drawPlayer s p = []
      | Some (Raw d) \<Rightarrow> drawPlayer s p = []
      | Some (Loaded a) \<Rightarrow>
          (if p_facing p = ''north'' then frame_drawn_from s p (north (av_images a))
           else if p_facing p = ''south'' then frame_drawn_from s p (south (av_images a))
           else if p_facing p = ''east'' then frame_drawn_from s p (east (av_images a))
           else if p_facing p = ''west'' then frame_drawn_from s p (east (av_images a))
           else drawPlayer s p = [])) \<and>
     (Scale (- 1) 1 \<in> set (drawPlayer s p)) = (p_facing p = ''west'' \<and> drawPlayer s p \<noteq> [])"
proof -
  have frames: "frame_drawn_from s p frames"
    if "jm_get (avatars s) (p_avatar p) = Some (Loaded a)"
      and "imagesAt (av_images a) (if p_facing p = ''west'' then ''east'' else p_facing p)
             = Some frames" for a frames
    using assms that
    by (auto simp: frame_drawn_from_def drawPlayer_def Let_def elementAt_js_rem
        drawnImages_label)
  have skip: "drawPlayer s p = []"
    if "jm_get (avatars s) (p_avatar p) = Some (Loaded a)"
      and "imagesAt (av_images a) (if p_facing p = ''west'' then ''east'' else p_facing p)
             = None" for a
    using that by (simp add: drawPlayer_def Let_def)
  have absent: "drawPlayer s p = []"
    if "jm_get (avatars s) (p_avatar p) = None \<or>
        (\<exists>d. jm_get (avatars s) (p_avatar p) = Some (Raw d))"
    using that by (auto simp: drawPlayer_def Let_def)
  have shape: "drawPlayer s p = [] \<or>
      (\<exists>img dx dy dh ly. drawPlayer s p =
         Save # (if p_facing p = ''west'' then [Scale (- 1) 1, DrawImage img dx dy 32 dh]
                 else [DrawImage img dx dy 32 dh]) @
         Restore # drawPlayerLabel (p_username p) (fst (worldToScreen s (p_x p) (p_y p))) ly)"
    unfolding drawPlayer_def Let_def
    by (simp split: option.splits avatar_entry.splits) blast
  have mirror:
    "(Scale (- 1) 1 \<in> set (drawPlayer s p)) = (p_facing p = ''west'' \<and> drawPlayer s p \<noteq> [])"
    using shape by (auto simp: drawPlayerLabel_def split: if_splits)
  show ?thesis
    using frames skip absent mirror
    by (auto simp: imagesAt_def split: option.splits avatar_entry.splits)
qed

text \<open>
  A player facing west on animation frame 3, whose avatar has two loaded east frames and
  no others: the second east frame is drawn, mirrored. The same player facing north is
  not drawn, since the avatar has no north frames.
\<close>

theorem drawPlayer_frame_selection_witness:
  "- 50 \<le> fst (worldToScreen east_only_client (p_x west_player) (p_y west_player)) \<and>
   fst (worldToScreen east_only_client (p_x west_player) (p_y west_player))
     \<le> viewportWidth east_only_client + 50 \<and>
   - 50 \<le> snd (worldToScreen east_only_client (p_x west_player) (p_y west_player)) \<and>
   snd (worldToScreen east_only_client (p_x west_player) (p_y west_player))
     \<le> viewportHeight east_only_client + 50 \<and>
   drawnImages (drawPlayer east_only_client west_player) = [east_frame ''e1''] \<and>
   Scale (- 1) 1 \<in> set (drawPlayer east_only_client west_player) \<and>
   drawPlayer east_only_client north_player = []"
proof -
  have v: "- 50 \<le> fst (worldToScreen east_only_client (p_x west_player) (p_y west_player))"
    "fst (worldToScreen east_only_client (p_x west_player) (p_y west_player))
       \<le> viewportWidth east_only_client + 50"
    "- 50 \<le> snd (worldToScreen east_only_client (p_x west_player) (p_y west_player))"
    "snd (worldToScreen east_only_client (p_x west_player) (p_y west_player))
       \<le> viewportHeight east_only_client + 50"
    by (simp_all add: worldToScreen_def east_only_client_def west_player_def player_at_def
        init_def constructed_def to_double_100)
  have n: "p_x north_player = p_x west_player" "p_y north_player = p_y west_player"
    by (simp_all add: north_player_def)
  have a: "jm_get (avatars east_only_client) ''knight'' =
      Some (Loaded \<lparr>av_name = ''knight'',
                    av_images = \<lparr>north = [], south = [],
                                 east = [east_frame ''e0'', east_frame ''e1'']\<rparr>\<rparr>)"
    by (simp add: east_only_client_def jm_get_Cons)
  have w: "p_avatar west_player = ''knight''" "p_facing west_player = ''west''"
    "p_animationFrame west_player = 3"
    by (simp_all add: west_player_def player_at_def)
  have nw: "p_avatar north_player = ''knight''" "p_facing north_player = ''north''"
    by (simp_all add: north_player_def west_player_def player_at_def)
  have west: "drawnImages (drawPlayer east_only_client west_player) = [east_frame ''e1''] \<and>
      Scale (- 1) 1 \<in> set (drawPlayer east_only_client west_player)"
    using drawPlayer_frame_selection [OF v]
    by (auto simp: a w frame_drawn_from_def east_frame_def)
  have north: "drawPlayer east_only_client north_player = []"
    using drawPlayer_frame_selection [of east_only_client north_player] v
    by (simp add: n a nw frame_drawn_from_def)
  from v west north show ?thesis by simp
qed

end
